theory Spec2Isabelle
  imports Complex_Main
begin

section \<open>Cost-sensitive logistic regression notebook: the embedding\<close>

text \<open>
  The program is the notebook \<^verbatim>\<open>08-01-Cost-when-training-ML-algorithm.ipynb\<close>: a linear
  script of cells. Nearly everything it computes is computed by library calls
  (scikit-learn, pandas), which are not part of the repository; the model takes them as
  the fields of one record and is parametric in the types of the values they exchange.
  The one numpy expression whose value a property is about, \<^verbatim>\<open>np.where(y_train==1,99,1)\<close>,
  is written out elementwise. What the notebook itself contributes, and what is modelled
  here from its cells, is: which calls are made, in which order, with which arguments,
  what is printed or shown, and where an exception is caught. An \<^verbatim>\<open>import\<close>
  statement is a library step as well: it may raise, and it may write to standard error.
\<close>

subsection \<open>Effects and exceptions\<close>

text \<open>
  A run produces a list of externally visible effects, in order, and ends either with an
  uncaught exception (\<open>Inl\<close>) or with a value (\<open>Inr\<close>). \<open>Print\<close> is a line written by
  \<^verbatim>\<open>print\<close> to standard output; \<open>Stderr\<close> is a line that the library writes to
  standard error while a module is imported (the first cell records such a warning);
  \<open>Display\<close> is the value of the last expression of a cell, shown by the notebook as the
  result of the cell; \<open>ReadCsv\<close> is a file opened by \<^verbatim>\<open>pd.read_csv\<close>. The recorded
  outputs of the notebook hold nothing else.
\<close>

datatype effect = Print string | Stderr string | Display string | ReadCsv string

type_synonym ('e, 'a) io = "effect list \<times> ('e + 'a)"

definition ret :: "'a \<Rightarrow> ('e, 'a) io" where
  "ret a = ([], Inr a)"

definition call :: "'e + 'a \<Rightarrow> ('e, 'a) io" where
  \<comment> \<open>a library call that computes in memory: no effect, returns or raises\<close>
  "call r = ([], r)"

definition print :: "string \<Rightarrow> ('e, unit) io" where
  "print s = ([Print s], Inr ())"

definition display :: "'e + string \<Rightarrow> ('e, unit) io" where
  \<comment> \<open>the last expression of a cell: evaluated by the library, then shown\<close>
  "display r = (case r of Inl e \<Rightarrow> ([], Inl e) | Inr shown \<Rightarrow> ([Display shown], Inr ()))"

definition bind_io :: "('e, 'a) io \<Rightarrow> ('a \<Rightarrow> ('e, 'b) io) \<Rightarrow> ('e, 'b) io" where
  \<comment> \<open>statement sequencing: an exception in the first statement skips the rest\<close>
  "bind_io m f =
     (case m of
        (out, Inl e) \<Rightarrow> (out, Inl e)
      | (out, Inr a) \<Rightarrow> (case f a of (out', r) \<Rightarrow> (out @ out', r)))"

definition try_except :: "('e, 'a) io \<Rightarrow> ('e \<Rightarrow> ('e, 'a) io) \<Rightarrow> ('e, 'a) io" where
  \<comment> \<open>\<^verbatim>\<open>try: m  except: h\<close> with a bare \<^verbatim>\<open>except\<close>: every exception reaches the handler\<close>
  "try_except m h =
     (case m of
        (out, Inl e) \<Rightarrow> (case h e of (out', r) \<Rightarrow> (out @ out', r))
      | (out, Inr a) \<Rightarrow> (out, Inr a))"

subsection \<open>The estimator and the library\<close>

text \<open>
  \<^verbatim>\<open>class_weight\<close> is \<^verbatim>\<open>None\<close>, a string (\<^verbatim>\<open>'balanced'\<close>) or a dict from label to
  penalty (\<^verbatim>\<open>{-1:1, 1:10}\<close>, kept as an association list in the order written).
\<close>

datatype class_weight = Str string | Dict "(int \<times> int) list"

text \<open>The keyword arguments of \<^verbatim>\<open>LogisticRegression(...)\<close> that the notebook sets.\<close>

record LogisticRegression =
  penalty :: string
  solver :: string
  random_state :: "int option"
  max_iter :: int
  n_jobs :: "int option"
  class_weight :: "class_weight option"

text \<open>
  The library calls of the notebook. Type variables: \<open>'c\<close> an estimator class, \<open>'o\<close> an
  estimator instance, \<open>'t\<close> a DataFrame, \<open>'x\<close> a feature table, \<open>'a\<close> the 2-D array of
  \<^verbatim>\<open>predict_proba\<close>, \<open>'p\<close> one of its columns, \<open>'s\<close> a score (a float), \<open>'m\<close> a fitted
  estimator, \<open>'e\<close> an exception, \<open>'g\<close> the ambient random source of one program run (the
  state of the global generator that a call without a seed draws from). Label columns are
  lists of integers. Every call may raise, except the formatting of a float.
  The calls that accept \<^verbatim>\<open>random_state\<close> take it as an \<open>int option\<close>; the three
  expressions that the notebook displays (\<^verbatim>\<open>data.head()\<close>,
  \<^verbatim>\<open>data.target.value_counts() / len(data)\<close> and \<^verbatim>\<open>X_train.shape, X_test.shape\<close>)
  return the text that is shown; importing a module returns the lines it writes to
  standard error.
\<close>

record ('c, 'o, 't, 'x, 'a, 'p, 's, 'm, 'e, 'g) library =
  import_module :: "string \<Rightarrow> 'e + string list"
  all_estimators :: "string \<Rightarrow> 'e + (string \<times> 'c) list"
  construct :: "'c \<Rightarrow> 'e + 'o"
  hasattr :: "'o \<Rightarrow> string \<Rightarrow> 'e + bool"
  read_csv :: "string \<Rightarrow> 'e + 't"
  sample :: "'g \<Rightarrow> 't \<Rightarrow> nat \<Rightarrow> int option \<Rightarrow> 'e + 't"
  df_head :: "'t \<Rightarrow> 'e + string"
  target_fractions :: "'t \<Rightarrow> 'e + string"
  drop_labels :: "'t \<Rightarrow> string list \<Rightarrow> 'e + 'x"
  get_column :: "'t \<Rightarrow> string \<Rightarrow> 'e + int list"
  train_test_split ::
    "'g \<Rightarrow> 'x \<Rightarrow> int list \<Rightarrow> real \<Rightarrow> int option \<Rightarrow> 'e + ('x \<times> 'x \<times> int list \<times> int list)"
  shapes :: "'x \<Rightarrow> 'x \<Rightarrow> 'e + string"
  fit :: "'g \<Rightarrow> LogisticRegression \<Rightarrow> 'x \<Rightarrow> int list \<Rightarrow> int list option \<Rightarrow> 'e + 'm"
  predict_proba :: "'m \<Rightarrow> 'x \<Rightarrow> 'e + 'a"
  column :: "'a \<Rightarrow> nat \<Rightarrow> 'e + 'p"
  roc_auc_score :: "int list \<Rightarrow> 'p \<Rightarrow> 'e + 's"
  format_float :: "'s \<Rightarrow> string"

definition import_io ::
  "('c, 'o, 't, 'x, 'a, 'p, 's, 'm, 'e, 'g) library \<Rightarrow> string \<Rightarrow> ('e, unit) io"
where
  \<comment> \<open>an \<^verbatim>\<open>import\<close> statement\<close>
  "import_io lib name =
     (case import_module lib name of
        Inl e \<Rightarrow> ([], Inl e)
      | Inr warnings \<Rightarrow> (map Stderr warnings, Inr ()))"

subsection \<open>numpy expressions of the notebook\<close>

definition eq_scalar :: "int list \<Rightarrow> int \<Rightarrow> bool list" where
  \<comment> \<open>\<^verbatim>\<open>y_train == 1\<close>: elementwise comparison with a scalar\<close>
  "eq_scalar y v = map (\<lambda>l. l = v) y"

definition np_where :: "bool list \<Rightarrow> 'a \<Rightarrow> 'a \<Rightarrow> 'a list" where
  \<comment> \<open>\<^verbatim>\<open>np.where(cond, a, b)\<close> with scalar \<open>a\<close> and \<open>b\<close>\<close>
  "np_where cond a b = map (\<lambda>c. if c then a else b) cond"

definition minority_sample_weight :: "int list \<Rightarrow> int list" where
  \<comment> \<open>\<^verbatim>\<open>np.where(y_train==1,99,1)\<close>\<close>
  "minority_sample_weight y_train = np_where (eq_scalar y_train 1) 99 1"

subsection \<open>The estimator enumeration (first code cell)\<close>

text \<open>
  \<^verbatim>\<open>
  from sklearn.utils.testing import all_estimators
  estimators = all_estimators(type_filter='classifier')
  for name, class_ in estimators:
      try:
          if hasattr(class_(), 'class_weight'):
              print(name)
      except:
          pass
  \<close>
\<close>

text \<open>The loop variable \<^verbatim>\<open>class_\<close> is \<open>cls\<close> here.\<close>

fun for_estimators ::
  "('c, 'o, 't, 'x, 'a, 'p, 's, 'm, 'e, 'g) library \<Rightarrow> (string \<times> 'c) list \<Rightarrow> ('e, unit) io"
where
  "for_estimators lib [] = ret ()"
| "for_estimators lib ((name, cls) # estimators) =
     bind_io
       (try_except
          (bind_io (call (construct lib cls)) (\<lambda>obj.
           bind_io (call (hasattr lib obj ''class_weight'')) (\<lambda>has.
           if has then print name else ret ())))
          (\<lambda>e. ret ()))
       (\<lambda>_. for_estimators lib estimators)"

definition classifiers_with_class_weight ::
  "('c, 'o, 't, 'x, 'a, 'p, 's, 'm, 'e, 'g) library \<Rightarrow> ('e, unit) io"
where
  "classifiers_with_class_weight lib =
     bind_io (import_io lib ''sklearn.utils.testing'') (\<lambda>_.
     bind_io (call (all_estimators lib ''classifier'')) (\<lambda>estimators.
     for_estimators lib estimators))"

subsection \<open>The imports (second code cell)\<close>

definition import_libraries ::
  "('c, 'o, 't, 'x, 'a, 'p, 's, 'm, 'e, 'g) library \<Rightarrow> ('e, unit) io"
where
  "import_libraries lib =
     bind_io (import_io lib ''numpy'') (\<lambda>_.
     bind_io (import_io lib ''pandas'') (\<lambda>_.
     bind_io (import_io lib ''sklearn.linear_model'') (\<lambda>_.
     bind_io (import_io lib ''sklearn.metrics'') (\<lambda>_.
     import_io lib ''sklearn.model_selection''))))"

subsection \<open>Loading and splitting\<close>

definition read_csv_io ::
  "('c, 'o, 't, 'x, 'a, 'p, 's, 'm, 'e, 'g) library \<Rightarrow> string \<Rightarrow> ('e, 't) io"
where
  "read_csv_io lib path = ([ReadCsv path], read_csv lib path)"

definition load_data ::
  "('c, 'o, 't, 'x, 'a, 'p, 's, 'm, 'e, 'g) library \<Rightarrow> 'g \<Rightarrow> ('e, 't) io"
where
  \<comment> \<open>\<^verbatim>\<open>data = pd.read_csv('../kdd2004.csv').sample(10000)\<close>: no \<^verbatim>\<open>random_state\<close> is given\<close>
  "load_data lib g =
     bind_io (read_csv_io lib ''../kdd2004.csv'') (\<lambda>df.
     call (sample lib g df 10000 None))"

definition split_data ::
  "('c, 'o, 't, 'x, 'a, 'p, 's, 'm, 'e, 'g) library \<Rightarrow> 'g \<Rightarrow> 't \<Rightarrow>
   ('e, 'x \<times> 'x \<times> int list \<times> int list) io"
where
  \<comment> \<open>\<^verbatim>\<open>train_test_split(data.drop(labels=['target'], axis=1), data['target'],
      test_size=0.3, random_state=0)\<close>\<close>
  "split_data lib g data =
     bind_io (call (drop_labels lib data [''target''])) (\<lambda>X.
     bind_io (call (get_column lib data ''target'')) (\<lambda>y.
     call (train_test_split lib g X y (3 / 10) (Some 0))))"

subsection \<open>The two definitions of \<^verbatim>\<open>run_Logit\<close>\<close>

text \<open>
  The notebook defines \<^verbatim>\<open>run_Logit\<close> twice; the second definition replaces the first
  for the cells after it. The first takes \<^verbatim>\<open>class_weight\<close> and hands it to the
  constructor; the second takes \<^verbatim>\<open>sample_weight\<close> and hands it to \<^verbatim>\<open>fit\<close>.
  A keyword that a call leaves out has the library's default, \<^verbatim>\<open>None\<close>, for both
  \<^verbatim>\<open>class_weight\<close> (constructor) and \<^verbatim>\<open>sample_weight\<close> (\<^verbatim>\<open>fit\<close>).
  \<^verbatim>\<open>logit.fit\<close> updates the estimator in place; the model names the fitted estimator
  \<open>logit'\<close>. Neither definition has a \<^verbatim>\<open>return\<close>: the result is \<open>()\<close>.
\<close>

definition LogisticRegression_class_weight :: "class_weight option \<Rightarrow> LogisticRegression" where
  \<comment> \<open>the constructor call of the first definition\<close>
  "LogisticRegression_class_weight cw =
     \<lparr>penalty = ''l2'', solver = ''newton-cg'', random_state = Some 0,
      max_iter = 10, n_jobs = Some 4, class_weight = cw\<rparr>"

definition LogisticRegression_sample_weight :: LogisticRegression where
  \<comment> \<open>the constructor call of the second definition: \<^verbatim>\<open>class_weight\<close> is left out\<close>
  "LogisticRegression_sample_weight =
     \<lparr>penalty = ''l2'', solver = ''newton-cg'', random_state = Some 0,
      max_iter = 10, n_jobs = Some 4, class_weight = None\<rparr>"

definition run_Logit_class_weight ::
  "('c, 'o, 't, 'x, 'a, 'p, 's, 'm, 'e, 'g) library \<Rightarrow> 'g \<Rightarrow>
   'x \<Rightarrow> 'x \<Rightarrow> int list \<Rightarrow> int list \<Rightarrow> class_weight option \<Rightarrow> ('e, unit) io"
where
  "run_Logit_class_weight lib g X_train X_test y_train y_test cw =
     (let logit = LogisticRegression_class_weight cw
      in
      bind_io (call (fit lib g logit X_train y_train None)) (\<lambda>logit'.
      bind_io (print ''Train set'') (\<lambda>_.
      bind_io (call (predict_proba lib logit' X_train)) (\<lambda>pred.
      bind_io (call (column lib pred 1)) (\<lambda>pred1.
      bind_io (call (roc_auc_score lib y_train pred1)) (\<lambda>auc.
      bind_io (print (''Random Forests roc-auc: '' @ format_float lib auc)) (\<lambda>_.
      bind_io (print ''Test set'') (\<lambda>_.
      bind_io (call (predict_proba lib logit' X_test)) (\<lambda>pred.
      bind_io (call (column lib pred 1)) (\<lambda>pred1.
      bind_io (call (roc_auc_score lib y_test pred1)) (\<lambda>auc.
      print (''Random Forests roc-auc: '' @ format_float lib auc))))))))))))"

definition run_Logit_sample_weight ::
  "('c, 'o, 't, 'x, 'a, 'p, 's, 'm, 'e, 'g) library \<Rightarrow> 'g \<Rightarrow>
   'x \<Rightarrow> 'x \<Rightarrow> int list \<Rightarrow> int list \<Rightarrow> int list option \<Rightarrow> ('e, unit) io"
where
  "run_Logit_sample_weight lib g X_train X_test y_train y_test sample_weight =
     (let logit = LogisticRegression_sample_weight
      in
      bind_io (call (fit lib g logit X_train y_train sample_weight)) (\<lambda>logit'.
      bind_io (print ''Train set'') (\<lambda>_.
      bind_io (call (predict_proba lib logit' X_train)) (\<lambda>pred.
      bind_io (call (column lib pred 1)) (\<lambda>pred1.
      bind_io (call (roc_auc_score lib y_train pred1)) (\<lambda>auc.
      bind_io (print (''Random Forests roc-auc: '' @ format_float lib auc)) (\<lambda>_.
      bind_io (print ''Test set'') (\<lambda>_.
      bind_io (call (predict_proba lib logit' X_test)) (\<lambda>pred.
      bind_io (call (column lib pred 1)) (\<lambda>pred1.
      bind_io (call (roc_auc_score lib y_test pred1)) (\<lambda>auc.
      print (''Random Forests roc-auc: '' @ format_float lib auc))))))))))))"

subsection \<open>The cells in order\<close>

definition weighting_runs ::
  "('c, 'o, 't, 'x, 'a, 'p, 's, 'm, 'e, 'g) library \<Rightarrow> 'g \<Rightarrow>
   'x \<Rightarrow> 'x \<Rightarrow> int list \<Rightarrow> int list \<Rightarrow> ('e, unit) io"
where
  \<comment> \<open>the five calls of \<^verbatim>\<open>run_Logit\<close>: three of the first definition, two of the second\<close>
  "weighting_runs lib g X_train X_test y_train y_test =
     bind_io (run_Logit_class_weight lib g X_train X_test y_train y_test None) (\<lambda>_.
     bind_io (run_Logit_class_weight lib g X_train X_test y_train y_test
                (Some (Str ''balanced''))) (\<lambda>_.
     bind_io (run_Logit_class_weight lib g X_train X_test y_train y_test
                (Some (Dict [(-1, 1), (1, 10)]))) (\<lambda>_.
     bind_io (run_Logit_sample_weight lib g X_train X_test y_train y_test None) (\<lambda>_.
     run_Logit_sample_weight lib g X_train X_test y_train y_test
       (Some (minority_sample_weight y_train))))))"

definition pipeline ::
  "('c, 'o, 't, 'x, 'a, 'p, 's, 'm, 'e, 'g) library \<Rightarrow> 'g \<Rightarrow> 't \<Rightarrow> ('e, unit) io"
where
  \<comment> \<open>split, show the two shapes, fit and score\<close>
  "pipeline lib g data =
     bind_io (split_data lib g data) (\<lambda>(X_train, X_test, y_train, y_test).
     bind_io (display (shapes lib X_train X_test)) (\<lambda>_.
     weighting_runs lib g X_train X_test y_train y_test))"

definition notebook ::
  "('c, 'o, 't, 'x, 'a, 'p, 's, 'm, 'e, 'g) library \<Rightarrow> 'g \<Rightarrow> ('e, unit) io"
where
  "notebook lib g =
     bind_io (classifiers_with_class_weight lib) (\<lambda>_.
     bind_io (import_libraries lib) (\<lambda>_.
     bind_io (load_data lib g) (\<lambda>data.
     bind_io (display (df_head lib data)) (\<lambda>_.
     bind_io (display (target_fractions lib data)) (\<lambda>_.
     pipeline lib g data)))))"

section \<open>Notions used to state the properties\<close>

text \<open>
  The score that the specification calls "predicted probabilities scored against ground
  truth with an area-under-curve metric": \<^verbatim>\<open>roc_auc_score(y, model.predict_proba(X)[:, 1])\<close>,
  failing with the first call that fails.
\<close>

definition roc_auc_of_predictions ::
  "('c, 'o, 't, 'x, 'a, 'p, 's, 'm, 'e, 'g) library \<Rightarrow> 'm \<Rightarrow> 'x \<Rightarrow> int list \<Rightarrow> 'e + 's"
where
  "roc_auc_of_predictions lib model X y =
     (case predict_proba lib model X of
        Inl e \<Rightarrow> Inl e
      | Inr pred \<Rightarrow>
          (case column lib pred 1 of
             Inl e \<Rightarrow> Inl e
           | Inr pred1 \<Rightarrow> roc_auc_score lib y pred1))"

text \<open>
  An estimator class supports \<^verbatim>\<open>class_weight\<close> when it can be instantiated without
  arguments and the instance has the attribute.
\<close>

definition supports_class_weight ::
  "('c, 'o, 't, 'x, 'a, 'p, 's, 'm, 'e, 'g) library \<Rightarrow> 'c \<Rightarrow> bool"
where
  "supports_class_weight lib cls =
     (case construct lib cls of
        Inl e \<Rightarrow> False
      | Inr obj \<Rightarrow> (case hasattr lib obj ''class_weight'' of Inl e \<Rightarrow> False | Inr has \<Rightarrow> has))"

text \<open>The lines that \<^verbatim>\<open>run_Logit\<close> prints: the two headings and the score lines.\<close>

definition metric_text :: "string \<Rightarrow> bool" where
  "metric_text s \<longleftrightarrow>
     s = ''Train set'' \<or> s = ''Test set'' \<or>
     take (length ''Random Forests roc-auc: '') s = ''Random Forests roc-auc: ''"

definition only_metric_text :: "effect list \<Rightarrow> bool" where
  "only_metric_text out \<longleftrightarrow>
     list_all (\<lambda>ev. case ev of Print s \<Rightarrow> metric_text s | _ \<Rightarrow> False) out"

text \<open>Effect lists that hold only standard-error lines, or only displayed results.\<close>

definition only_stderr :: "effect list \<Rightarrow> bool" where
  "only_stderr out \<longleftrightarrow> list_all (\<lambda>ev. case ev of Stderr s \<Rightarrow> True | _ \<Rightarrow> False) out"

definition only_displays :: "effect list \<Rightarrow> bool" where
  "only_displays out \<longleftrightarrow> list_all (\<lambda>ev. case ev of Display s \<Rightarrow> True | _ \<Rightarrow> False) out"

text \<open>The files opened during a run, in order.\<close>

definition csv_reads :: "effect list \<Rightarrow> string list" where
  "csv_reads out = concat (map (\<lambda>ev. case ev of ReadCsv path \<Rightarrow> [path] | _ \<Rightarrow> []) out)"

text \<open>
  What a fixed seed means for the library: a call that is given a seed returns the same
  result whatever the ambient random source is. The three calls of the notebook that take
  \<^verbatim>\<open>random_state\<close> are \<^verbatim>\<open>sample\<close>, \<^verbatim>\<open>train_test_split\<close> and the estimator.
\<close>

definition seeded_calls_ignore_ambient ::
  "('c, 'o, 't, 'x, 'a, 'p, 's, 'm, 'e, 'g) library \<Rightarrow> bool"
where
  "seeded_calls_ignore_ambient lib \<longleftrightarrow>
     (\<forall>g g' df n seed. sample lib g df n (Some seed) = sample lib g' df n (Some seed)) \<and>
     (\<forall>g g' X y test_size seed.
        train_test_split lib g X y test_size (Some seed) =
        train_test_split lib g' X y test_size (Some seed)) \<and>
     (\<forall>g g' logit X y w.
        random_state logit \<noteq> None \<longrightarrow> fit lib g logit X y w = fit lib g' logit X y w)"

subsection \<open>A small library for evaluating the model\<close>

text \<open>
  A table is a list of (feature, label) rows. Importing \<^verbatim>\<open>sklearn.utils.testing\<close>
  writes a warning; one estimator class cannot be instantiated without arguments; a call
  without a seed rotates its input by the ambient value; the score of a label column with
  a single class is an error, as in scikit-learn.
\<close>

type_synonym toy =
  "(nat, nat, (int \<times> int) list, int list, int list list, int list, nat, int, string, nat) library"

definition toy_library :: toy where
  "toy_library =
     \<lparr>import_module = (\<lambda>name. Inr (if name = ''sklearn.utils.testing''
                                        then [''FutureWarning''] else [])),
      all_estimators = (\<lambda>kind. Inr [(''LogisticRegression'', 0), (''GaussianNB'', 2),
                                       (''StackingClassifier'', 3)]),
      construct = (\<lambda>cls. if cls = 3 then Inl ''TypeError'' else Inr cls),
      hasattr = (\<lambda>obj attr. Inr (obj = 0)),
      read_csv = (\<lambda>path. if path = ''../kdd2004.csv''
                           then Inr [(5, -1), (7, 1), (6, -1), (9, 1)]
                           else Inl ''FileNotFoundError''),
      sample = (\<lambda>g df n seed. Inr (case seed of None \<Rightarrow> rotate g df | Some k \<Rightarrow> df)),
      df_head = (\<lambda>df. Inr ''head''),
      target_fractions = (\<lambda>df. Inr ''fractions''),
      drop_labels = (\<lambda>df labels. Inr (map fst df)),
      get_column = (\<lambda>df name. if name = ''target'' then Inr (map snd df) else Inl ''KeyError''),
      train_test_split = (\<lambda>g X y test_size seed.
         let k = (case seed of None \<Rightarrow> g | Some k \<Rightarrow> 0)
         in Inr (drop 2 (rotate k X), take 2 (rotate k X), drop 2 (rotate k y), take 2 (rotate k y))),
      shapes = (\<lambda>X X'. Inr ''shapes''),
      fit = (\<lambda>g logit X y w.
         if length X = length y
         then Inr ((case w of None \<Rightarrow> 0 | Some ws \<Rightarrow> sum_list ws) +
                   (case random_state logit of None \<Rightarrow> int g | Some k \<Rightarrow> 0))
         else Inl ''ValueError''),
      predict_proba = (\<lambda>model X. Inr (map (\<lambda>x. [- x, x + model]) X)),
      column = (\<lambda>pred k. if list_all (\<lambda>row. k < length row) pred
                          then Inr (map (\<lambda>row. row ! k) pred) else Inl ''IndexError''),
      roc_auc_score = (\<lambda>y p. if 1 \<in> set y \<and> -1 \<in> set y then Inr (length p)
                              else Inl ''ValueError''),
      format_float = (\<lambda>s. ''0.'' @ replicate s CHR ''9'')\<rparr>"

text \<open>The same library over a file that holds a single row.\<close>

definition one_row_library :: toy where
  "one_row_library = toy_library\<lparr>read_csv := (\<lambda>path. Inr [(5, -1)])\<rparr>"

text \<open>The four lines of one run over two training rows and two test rows.\<close>

definition toy_run_lines :: "effect list" where
  "toy_run_lines =
     [Print ''Train set'', Print ''Random Forests roc-auc: 0.99'',
      Print ''Test set'', Print ''Random Forests roc-auc: 0.99'']"

section \<open>Sequencing, the loop and the two functions\<close>

lemma bind_io_call_Inl [simp]: "bind_io (call (Inl e)) f = ([], Inl e)"
  by (simp add: bind_io_def call_def)

lemma bind_io_call_Inr [simp]: "bind_io (call (Inr a)) f = f a"
  by (simp add: bind_io_def call_def split: prod.splits)

lemma bind_io_print [simp]: "bind_io (print s) f = (Print s # fst (f ()), snd (f ()))"
  by (simp add: bind_io_def print_def split: prod.splits)

lemma bind_io_ret [simp]: "bind_io (ret a) f = f a"
  by (simp add: bind_io_def ret_def split: prod.splits)

lemma fst_print [simp]: "fst (print s) = [Print s]"
  by (simp add: print_def)

lemma snd_print [simp]: "snd (print s) = Inr ()"
  by (simp add: print_def)

lemma display_Inl [simp]: "display (Inl e) = ([], Inl e)"
  by (simp add: display_def)

lemma display_Inr [simp]: "display (Inr shown) = ([Display shown], Inr ())"
  by (simp add: display_def)

text \<open>
  Sequencing is strict: when the first part fails, the whole is the first part, with its
  effects and its exception; otherwise the effects are joined and the outcome is that of
  the second part.
\<close>

lemma bind_io_cases:
  "bind_io m f =
     (case snd m of Inl e \<Rightarrow> (fst m, Inl e) | Inr a \<Rightarrow> (fst m @ fst (f a), snd (f a)))"
  by (simp add: bind_io_def split: prod.splits sum.splits)


lemma snd_bind_io:
  "snd (bind_io m f) = (case snd m of Inl e \<Rightarrow> Inl e | Inr a \<Rightarrow> snd (f a))"
  by (simp add: bind_io_def split: prod.splits sum.splits)

text \<open>One turn of the loop prints the name or prints nothing; it never raises.\<close>

lemma for_estimators_Nil: "for_estimators lib [] = ([], Inr ())"
  by (simp add: ret_def)

lemma for_estimators_Cons:
  "for_estimators lib ((name, cls) # ests) =
     ((if supports_class_weight lib cls then [Print name] else []) @ fst (for_estimators lib ests),
      snd (for_estimators lib ests))"
  by (simp add: bind_io_def try_except_def call_def ret_def print_def supports_class_weight_def
      split: prod.splits sum.splits)

lemma for_estimators_never_raises: "snd (for_estimators lib ests) = Inr ()"
proof (induction ests)
  case Nil
  show ?case by (simp add: ret_def)
next
  case (Cons a ests)
  then show ?case by (cases a) (simp add: for_estimators_Cons del: for_estimators.simps)
qed

lemma for_estimators_prints:
  "fst (for_estimators lib ests) =
     map (\<lambda>(name, cls). Print name) (filter (\<lambda>(name, cls). supports_class_weight lib cls) ests)"
proof (induction ests)
  case Nil
  show ?case by (simp add: ret_def)
next
  case (Cons a ests)
  then show ?case by (cases a) (simp add: for_estimators_Cons del: for_estimators.simps)
qed

text \<open>
  Both definitions of \<^verbatim>\<open>run_Logit\<close>, by the outcome of the fit and of the two scores.
\<close>

lemma run_Logit_class_weight_cases:
  "run_Logit_class_weight lib g X_train X_test y_train y_test cw =
     (case fit lib g (LogisticRegression_class_weight cw) X_train y_train None of
        Inl e \<Rightarrow> ([], Inl e)
      | Inr m \<Rightarrow>
          (case roc_auc_of_predictions lib m X_train y_train of
             Inl e \<Rightarrow> ([Print ''Train set''], Inl e)
           | Inr s \<Rightarrow>
               (case roc_auc_of_predictions lib m X_test y_test of
                  Inl e \<Rightarrow>
                    ([Print ''Train set'',
                      Print (''Random Forests roc-auc: '' @ format_float lib s),
                      Print ''Test set''], Inl e)
                | Inr s' \<Rightarrow>
                    ([Print ''Train set'',
                      Print (''Random Forests roc-auc: '' @ format_float lib s),
                      Print ''Test set'',
                      Print (''Random Forests roc-auc: '' @ format_float lib s')], Inr ()))))"
  by (simp add: run_Logit_class_weight_def roc_auc_of_predictions_def split: sum.splits)

lemma run_Logit_sample_weight_cases:
  "run_Logit_sample_weight lib g X_train X_test y_train y_test sw =
     (case fit lib g LogisticRegression_sample_weight X_train y_train sw of
        Inl e \<Rightarrow> ([], Inl e)
      | Inr m \<Rightarrow>
          (case roc_auc_of_predictions lib m X_train y_train of
             Inl e \<Rightarrow> ([Print ''Train set''], Inl e)
           | Inr s \<Rightarrow>
               (case roc_auc_of_predictions lib m X_test y_test of
                  Inl e \<Rightarrow>
                    ([Print ''Train set'',
                      Print (''Random Forests roc-auc: '' @ format_float lib s),
                      Print ''Test set''], Inl e)
                | Inr s' \<Rightarrow>
                    ([Print ''Train set'',
                      Print (''Random Forests roc-auc: '' @ format_float lib s),
                      Print ''Test set'',
                      Print (''Random Forests roc-auc: '' @ format_float lib s')], Inr ()))))"
  by (simp add: run_Logit_sample_weight_def roc_auc_of_predictions_def split: sum.splits)

subsection \<open>What is printed and what is read\<close>

lemma metric_text_labels [simp]: "metric_text ''Train set''" "metric_text ''Test set''"
  by (simp_all add: metric_text_def)

lemma metric_text_score: "metric_text (''Random Forests roc-auc: '' @ t)"
  by (simp add: metric_text_def)

lemmas metric_text_score_line [simp] = metric_text_score [simplified]




lemma only_metric_text_call [simp]: "only_metric_text (fst (call r))"
  by (simp add: call_def only_metric_text_def)



lemma csv_reads_Nil [simp]: "csv_reads [] = []"
  by (simp add: csv_reads_def)

lemma csv_reads_Cons [simp]:
  "csv_reads (ev # out) =
     (case ev of ReadCsv path \<Rightarrow> path # csv_reads out | _ \<Rightarrow> csv_reads out)"
  by (simp add: csv_reads_def split: effect.splits)





lemma only_stderr_Nil [simp]: "only_stderr []"
  by (simp add: only_stderr_def)

lemma only_stderr_map [simp]: "only_stderr (map Stderr ws)"
  by (induction ws) (simp_all add: only_stderr_def)

lemma only_stderr_append [simp]: "only_stderr (xs @ ys) \<longleftrightarrow> only_stderr xs \<and> only_stderr ys"
  by (simp add: only_stderr_def)

lemma only_displays_Nil [simp]: "only_displays []"
  by (simp add: only_displays_def)

lemma only_displays_Cons [simp]: "only_displays (Display shown # out) \<longleftrightarrow> only_displays out"
  by (simp add: only_displays_def)

lemma only_displays_append [simp]:
  "only_displays (xs @ ys) \<longleftrightarrow> only_displays xs \<and> only_displays ys"
  by (simp add: only_displays_def)

lemma only_metric_text_Nil [simp]: "only_metric_text []"
  by (simp add: only_metric_text_def)

subsection \<open>Each part of the program, by the outcome of its calls\<close>

text \<open>
  The equations below give, for every way the library calls of a part can end, the
  effects and the outcome of that part. Outside the loop the first call that raises ends
  the part with that exception, after the effects so far.
\<close>

lemma classifiers_with_class_weight_cases:
  "classifiers_with_class_weight lib =
     (case import_module lib ''sklearn.utils.testing'' of
        Inl e \<Rightarrow> ([], Inl e)
      | Inr ws \<Rightarrow>
          (case all_estimators lib ''classifier'' of
             Inl e \<Rightarrow> (map Stderr ws, Inl e)
           | Inr ests \<Rightarrow>
               (map Stderr ws @
                map (\<lambda>(name, cls). Print name)
                  (filter (\<lambda>(name, cls). supports_class_weight lib cls) ests),
                Inr ())))"
proof (cases "import_module lib ''sklearn.utils.testing''")
  case (Inl e)
  then show ?thesis
    by (simp add: classifiers_with_class_weight_def import_io_def bind_io_def)
next
  case ws: (Inr ws)
  show ?thesis
  proof (cases "all_estimators lib ''classifier''")
    case (Inl e)
    with ws show ?thesis
      by (simp add: classifiers_with_class_weight_def import_io_def bind_io_def call_def)
  next
    case (Inr ests)
    have "for_estimators lib ests =
        (map (\<lambda>(name, cls). Print name)
           (filter (\<lambda>(name, cls). supports_class_weight lib cls) ests), Inr ())"
      using for_estimators_prints [of lib ests] for_estimators_never_raises [of lib ests]
      by (cases "for_estimators lib ests") simp
    with ws Inr show ?thesis
      by (simp add: classifiers_with_class_weight_def import_io_def bind_io_def call_def)
  qed
qed

lemma import_libraries_cases:
  "import_libraries lib =
     (case import_module lib ''numpy'' of
        Inl e \<Rightarrow> ([], Inl e)
      | Inr w1 \<Rightarrow>
     (case import_module lib ''pandas'' of
        Inl e \<Rightarrow> (map Stderr w1, Inl e)
      | Inr w2 \<Rightarrow>
     (case import_module lib ''sklearn.linear_model'' of
        Inl e \<Rightarrow> (map Stderr w1 @ map Stderr w2, Inl e)
      | Inr w3 \<Rightarrow>
     (case import_module lib ''sklearn.metrics'' of
        Inl e \<Rightarrow> (map Stderr w1 @ map Stderr w2 @ map Stderr w3, Inl e)
      | Inr w4 \<Rightarrow>
     (case import_module lib ''sklearn.model_selection'' of
        Inl e \<Rightarrow> (map Stderr w1 @ map Stderr w2 @ map Stderr w3 @ map Stderr w4, Inl e)
      | Inr w5 \<Rightarrow>
          (map Stderr w1 @ map Stderr w2 @ map Stderr w3 @ map Stderr w4 @ map Stderr w5,
           Inr ()))))))"
  by (simp add: import_libraries_def import_io_def bind_io_def split: sum.splits)

lemma load_data_cases:
  "load_data lib g =
     (case read_csv lib ''../kdd2004.csv'' of
        Inl e \<Rightarrow> ([ReadCsv ''../kdd2004.csv''], Inl e)
      | Inr df \<Rightarrow> ([ReadCsv ''../kdd2004.csv''], sample lib g df 10000 None))"
  by (simp add: load_data_def read_csv_io_def bind_io_def call_def split: sum.splits)

lemma weighting_runs_cases:
  "weighting_runs lib g X_train X_test y_train y_test =
     (let r1 = run_Logit_class_weight lib g X_train X_test y_train y_test None;
          r2 = run_Logit_class_weight lib g X_train X_test y_train y_test
                 (Some (Str ''balanced''));
          r3 = run_Logit_class_weight lib g X_train X_test y_train y_test
                 (Some (Dict [(-1, 1), (1, 10)]));
          r4 = run_Logit_sample_weight lib g X_train X_test y_train y_test None;
          r5 = run_Logit_sample_weight lib g X_train X_test y_train y_test
                 (Some (minority_sample_weight y_train))
      in
      (case snd r1 of Inl e \<Rightarrow> (fst r1, Inl e) | Inr u \<Rightarrow>
      (case snd r2 of Inl e \<Rightarrow> (fst r1 @ fst r2, Inl e) | Inr u \<Rightarrow>
      (case snd r3 of Inl e \<Rightarrow> (fst r1 @ fst r2 @ fst r3, Inl e) | Inr u \<Rightarrow>
      (case snd r4 of Inl e \<Rightarrow> (fst r1 @ fst r2 @ fst r3 @ fst r4, Inl e) | Inr u \<Rightarrow>
         (fst r1 @ fst r2 @ fst r3 @ fst r4 @ fst r5, snd r5))))))"
  by (simp add: weighting_runs_def bind_io_cases Let_def split: sum.splits)

lemma pipeline_cases:
  "pipeline lib g data =
     (case drop_labels lib data [''target''] of
        Inl e \<Rightarrow> ([], Inl e)
      | Inr X \<Rightarrow>
     (case get_column lib data ''target'' of
        Inl e \<Rightarrow> ([], Inl e)
      | Inr y \<Rightarrow>
     (case train_test_split lib g X y (3 / 10) (Some 0) of
        Inl e \<Rightarrow> ([], Inl e)
      | Inr (X_train, X_test, y_train, y_test) \<Rightarrow>
     (case shapes lib X_train X_test of
        Inl e \<Rightarrow> ([], Inl e)
      | Inr shown \<Rightarrow>
          (Display shown # fst (weighting_runs lib g X_train X_test y_train y_test),
           snd (weighting_runs lib g X_train X_test y_train y_test))))))"
  by (simp add: pipeline_def split_data_def bind_io_cases call_def
      split: sum.splits prod.splits)

lemma notebook_cases:
  "notebook lib g =
     (let c = classifiers_with_class_weight lib;
          i = import_libraries lib;
          l = load_data lib g
      in
      (case snd c of Inl e \<Rightarrow> (fst c, Inl e) | Inr u \<Rightarrow>
      (case snd i of Inl e \<Rightarrow> (fst c @ fst i, Inl e) | Inr u \<Rightarrow>
      (case snd l of Inl e \<Rightarrow> (fst c @ fst i @ fst l, Inl e) | Inr data \<Rightarrow>
      (case df_head lib data of
         Inl e \<Rightarrow> (fst c @ fst i @ fst l, Inl e)
       | Inr shown_head \<Rightarrow>
      (case target_fractions lib data of
         Inl e \<Rightarrow> (fst c @ fst i @ fst l @ [Display shown_head], Inl e)
       | Inr shown_fractions \<Rightarrow>
           (fst c @ fst i @ fst l @ [Display shown_head, Display shown_fractions] @
              fst (pipeline lib g data),
            snd (pipeline lib g data))))))))"
  by (simp add: notebook_def bind_io_cases Let_def display_def split: sum.splits)

subsection \<open>The order of the effects\<close>









subsection \<open>Seeded calls\<close>

lemma run_Logit_class_weight_ambient:
  "seeded_calls_ignore_ambient lib \<Longrightarrow>
   run_Logit_class_weight lib g X_train X_test y_train y_test cw =
   run_Logit_class_weight lib g' X_train X_test y_train y_test cw"
proof -
  assume "seeded_calls_ignore_ambient lib"
  then have "fit lib g (LogisticRegression_class_weight cw) X_train y_train None =
      fit lib g' (LogisticRegression_class_weight cw) X_train y_train None"
    by (simp add: seeded_calls_ignore_ambient_def LogisticRegression_class_weight_def)
  then show ?thesis by (simp add: run_Logit_class_weight_cases)
qed

lemma run_Logit_sample_weight_ambient:
  "seeded_calls_ignore_ambient lib \<Longrightarrow>
   run_Logit_sample_weight lib g X_train X_test y_train y_test sw =
   run_Logit_sample_weight lib g' X_train X_test y_train y_test sw"
proof -
  assume "seeded_calls_ignore_ambient lib"
  then have "fit lib g LogisticRegression_sample_weight X_train y_train sw =
      fit lib g' LogisticRegression_sample_weight X_train y_train sw"
    by (simp add: seeded_calls_ignore_ambient_def LogisticRegression_sample_weight_def)
  then show ?thesis by (simp add: run_Logit_sample_weight_cases)
qed

lemma split_data_ambient:
  "seeded_calls_ignore_ambient lib \<Longrightarrow> split_data lib g data = split_data lib g' data"
proof -
  assume "seeded_calls_ignore_ambient lib"
  then have "train_test_split lib g X y (3 / 10) (Some 0) =
      train_test_split lib g' X y (3 / 10) (Some 0)" for X y
    by (simp add: seeded_calls_ignore_ambient_def)
  then show ?thesis by (simp add: split_data_def)
qed

lemma weighting_runs_ambient:
  "seeded_calls_ignore_ambient lib \<Longrightarrow>
   weighting_runs lib g X_train X_test y_train y_test =
   weighting_runs lib g' X_train X_test y_train y_test"
  by (simp add: weighting_runs_def run_Logit_class_weight_ambient [of lib g _ _ _ _ _ g']
      run_Logit_sample_weight_ambient [of lib g _ _ _ _ _ g'])

lemma pipeline_ambient:
  "seeded_calls_ignore_ambient lib \<Longrightarrow> pipeline lib g data = pipeline lib g' data"
  by (simp add: pipeline_def split_data_ambient [of lib g _ g']
      weighting_runs_ambient [of lib g _ _ _ _ g'])

subsection \<open>Facts about the small library\<close>

lemma toy_all_estimators:
  "all_estimators toy_library kind =
     Inr [(''LogisticRegression'', 0), (''GaussianNB'', 2), (''StackingClassifier'', 3)]"
  by (simp add: toy_library_def)

lemma toy_supports:
  "supports_class_weight toy_library 0" "\<not> supports_class_weight toy_library 2"
  "\<not> supports_class_weight toy_library 3"
  by (simp_all add: supports_class_weight_def toy_library_def)

lemma toy_import_module:
  "import_module toy_library name =
     Inr (if name = ''sklearn.utils.testing'' then [''FutureWarning''] else [])"
  by (simp add: toy_library_def)

lemma toy_classifiers:
  "classifiers_with_class_weight toy_library =
     ([Stderr ''FutureWarning'', Print ''LogisticRegression''], Inr ())"
  by (simp add: classifiers_with_class_weight_cases toy_import_module toy_all_estimators
      toy_supports)

lemma toy_import_libraries: "import_libraries toy_library = ([], Inr ())"
  by (simp add: import_libraries_cases toy_import_module)

lemma toy_read_csv:
  "read_csv toy_library ''../kdd2004.csv'' = Inr [(5, -1), (7, 1), (6, -1), (9, 1)]"
  by (simp add: toy_library_def)

lemma toy_load_data:
  "load_data toy_library 0 = ([ReadCsv ''../kdd2004.csv''], Inr [(5, -1), (7, 1), (6, -1), (9, 1)])"
  "load_data toy_library 1 = ([ReadCsv ''../kdd2004.csv''], Inr [(7, 1), (6, -1), (9, 1), (5, -1)])"
  by (simp_all add: load_data_def read_csv_io_def toy_read_csv bind_io_def call_def)
     (simp_all add: toy_library_def)

lemma toy_seeded: "seeded_calls_ignore_ambient toy_library"
  by (auto simp: seeded_calls_ignore_ambient_def toy_library_def)

lemma toy_auc_train: "roc_auc_of_predictions toy_library 0 [5, 7, 6] [-1, 1, -1] = Inr 3"
  by (simp add: roc_auc_of_predictions_def toy_library_def)

lemma toy_auc_test: "roc_auc_of_predictions toy_library 0 [9, 4] [1, -1] = Inr 2"
  by (simp add: roc_auc_of_predictions_def toy_library_def)

lemma toy_displays:
  "df_head toy_library df = Inr ''head''"
  "target_fractions toy_library df = Inr ''fractions''"
  "shapes toy_library X X' = Inr ''shapes''"
  by (simp_all add: toy_library_def)

lemma toy_split:
  "drop_labels toy_library df labels = Inr (map fst df)"
  "get_column toy_library df ''target'' = Inr (map snd df)"
  "train_test_split toy_library g X y test_size (Some seed) =
     Inr (drop 2 X, take 2 X, drop 2 y, take 2 y)"
  by (simp_all add: toy_library_def)

lemma toy_run_Logit_class_weight:
  "run_Logit_class_weight toy_library 0 [6, 9] [5, 7] [-1, 1] [-1, 1] cw =
     (toy_run_lines, Inr ())"
  by (simp add: run_Logit_class_weight_cases roc_auc_of_predictions_def toy_run_lines_def
      toy_library_def)

lemma toy_run_Logit_sample_weight:
  "run_Logit_sample_weight toy_library 0 [6, 9] [5, 7] [-1, 1] [-1, 1] sw =
     (toy_run_lines, Inr ())"
  by (simp add: run_Logit_sample_weight_cases roc_auc_of_predictions_def toy_run_lines_def
      toy_library_def)

lemma toy_pipeline:
  "pipeline toy_library 0 [(5, -1), (7, 1), (6, -1), (9, 1)] =
     (Display ''shapes'' #
        toy_run_lines @ toy_run_lines @ toy_run_lines @ toy_run_lines @ toy_run_lines,
      Inr ())"
  by (simp add: pipeline_cases weighting_runs_cases Let_def toy_split toy_displays
      toy_run_Logit_class_weight toy_run_Logit_sample_weight)


lemma one_row_classifiers:
  "classifiers_with_class_weight one_row_library =
     ([Stderr ''FutureWarning'', Print ''LogisticRegression''], Inr ())"
  by (simp add: classifiers_with_class_weight_cases supports_class_weight_def
      one_row_library_def toy_library_def)

lemma one_row_import_libraries: "import_libraries one_row_library = ([], Inr ())"
  by (simp add: import_libraries_cases one_row_library_def toy_library_def)

lemma one_row_load_data:
  "load_data one_row_library 0 = ([ReadCsv ''../kdd2004.csv''], Inr [(5, -1)])"
  by (simp add: load_data_cases one_row_library_def toy_library_def)

lemma one_row_displays:
  "df_head one_row_library df = Inr ''head''"
  "target_fractions one_row_library df = Inr ''fractions''"
  by (simp_all add: one_row_library_def toy_library_def)

lemma one_row_pipeline:
  "pipeline one_row_library 0 [(5, -1)] =
     ([Display ''shapes'', Print ''Train set''], Inl ''ValueError'')"
  by (simp add: pipeline_cases weighting_runs_cases Let_def run_Logit_class_weight_cases
      roc_auc_of_predictions_def one_row_library_def toy_library_def)

lemma one_row_notebook:
  "notebook one_row_library 0 =
     ([Stderr ''FutureWarning'', Print ''LogisticRegression'', ReadCsv ''../kdd2004.csv'',
       Display ''head'', Display ''fractions'', Display ''shapes'', Print ''Train set''],
      Inl ''ValueError'')"
  by (simp add: notebook_cases Let_def one_row_classifiers one_row_import_libraries
      one_row_load_data one_row_displays one_row_pipeline)

section \<open>Properties\<close>

text \<open>
  C1. Every call of \<^verbatim>\<open>run_Logit\<close>, in either definition, fits the estimator on
  \<open>X_train\<close> and \<open>y_train\<close> only; the fitted estimator then scores \<open>X_train\<close> against
  \<open>y_train\<close> and \<open>X_test\<close> against \<open>y_test\<close> with ROC-AUC on the second column of
  \<^verbatim>\<open>predict_proba\<close>, and the two scores are printed in that order, the train score
  first, each under its heading. The library calls are taken to return: a call that
  raises ends the function there (C4).
\<close>

theorem run_Logit_fits_train_scores_both:
  "(fit lib g (LogisticRegression_class_weight cw) X_train y_train None = Inr m \<longrightarrow>
    roc_auc_of_predictions lib m X_train y_train = Inr s_train \<longrightarrow>
    roc_auc_of_predictions lib m X_test y_test = Inr s_test \<longrightarrow>
    run_Logit_class_weight lib g X_train X_test y_train y_test cw =
      ([Print ''Train set'', Print (''Random Forests roc-auc: '' @ format_float lib s_train),
        Print ''Test set'', Print (''Random Forests roc-auc: '' @ format_float lib s_test)],
       Inr ())) \<and>
   (fit lib g LogisticRegression_sample_weight X_train y_train sw = Inr m' \<longrightarrow>
    roc_auc_of_predictions lib m' X_train y_train = Inr s_train' \<longrightarrow>
    roc_auc_of_predictions lib m' X_test y_test = Inr s_test' \<longrightarrow>
    run_Logit_sample_weight lib g X_train X_test y_train y_test sw =
      ([Print ''Train set'', Print (''Random Forests roc-auc: '' @ format_float lib s_train'),
        Print ''Test set'', Print (''Random Forests roc-auc: '' @ format_float lib s_test')],
       Inr ()))"
  by (simp add: run_Logit_class_weight_cases run_Logit_sample_weight_cases)

theorem run_Logit_fits_train_scores_both_witness:
  "run_Logit_class_weight toy_library 0 [5, 7, 6] [9, 4] [-1, 1, -1] [1, -1] None =
     ([Print ''Train set'', Print ''Random Forests roc-auc: 0.999'',
       Print ''Test set'', Print ''Random Forests roc-auc: 0.99''], Inr ()) \<and>
   run_Logit_sample_weight toy_library 0 [5, 7, 6] [9, 4] [-1, 1, -1] [1, -1] None =
     ([Print ''Train set'', Print ''Random Forests roc-auc: 0.999'',
       Print ''Test set'', Print ''Random Forests roc-auc: 0.99''], Inr ())"
proof -
  have f1: "fit toy_library 0 (LogisticRegression_class_weight None) [5, 7, 6] [-1, 1, -1] None = Inr 0"
    by (simp add: toy_library_def LogisticRegression_class_weight_def)
  have f2: "fit toy_library 0 LogisticRegression_sample_weight [5, 7, 6] [-1, 1, -1] None = Inr 0"
    by (simp add: toy_library_def LogisticRegression_sample_weight_def)
  have fm3: "format_float toy_library 3 = ''0.999''" and fm2: "format_float toy_library 2 = ''0.99''"
    by (simp_all add: toy_library_def eval_nat_numeral)
  show ?thesis
    using run_Logit_fits_train_scores_both
      [of toy_library 0 None "[5, 7, 6]" "[-1, 1, -1]" 0 3 "[9, 4]" "[1, -1]" 2 None 0 3 2]
      f1 f2 toy_auc_train toy_auc_test fm3 fm2
    by simp
qed

text \<open>
  C3. The per-observation weight vector \<^verbatim>\<open>np.where(y_train==1,99,1)\<close> handed to the fit
  call has one entry per training label, the entry at each position is 99 where the label
  at that position is 1 and 1 otherwise, and every entry is a positive scalar.
\<close>

theorem sample_weight_aligned_positive:
  "length (minority_sample_weight y_train) = length y_train \<and>
   (\<forall>i < length y_train.
      minority_sample_weight y_train ! i = (if y_train ! i = 1 then 99 else 1)) \<and>
   (\<forall>w \<in> set (minority_sample_weight y_train). 0 < w \<and> (w = 99 \<or> w = 1))"
  by (auto simp: minority_sample_weight_def np_where_def eq_scalar_def)

theorem sample_weight_aligned_positive_witness:
  "minority_sample_weight [-1, 1, -1] = [1, 99, 1] \<and>
   length (minority_sample_weight [-1, 1, -1]) = length [-1, 1, -1 :: int] \<and>
   minority_sample_weight [-1, 1, -1] ! 1 = 99 \<and>
   0 < minority_sample_weight [-1, 1, -1] ! 0"
  using sample_weight_aligned_positive [of "[-1, 1, -1]"]
  by (simp add: minority_sample_weight_def np_where_def eq_scalar_def)

text \<open>
  C4, as amended. The only handler of the program is the bare \<^verbatim>\<open>try/except\<close> of the
  estimator enumeration: whatever is raised while an estimator class is instantiated or
  probed for \<^verbatim>\<open>class_weight\<close> is caught and dropped, the estimator is skipped, and the
  loop never fails; it prints exactly the names of the classes that support
  \<^verbatim>\<open>class_weight\<close>. Outside the loop nothing is caught. The equations give the effects
  and the outcome of every part of the program for every way its library calls can end:
  the first call that raises (an import, \<^verbatim>\<open>all_estimators\<close>, \<^verbatim>\<open>read_csv\<close>,
  \<^verbatim>\<open>sample\<close>, a displayed expression, \<^verbatim>\<open>drop\<close>, the column selection,
  \<^verbatim>\<open>train_test_split\<close>, \<^verbatim>\<open>fit\<close>, \<^verbatim>\<open>predict_proba\<close> or \<^verbatim>\<open>roc_auc_score\<close>)
  ends the part, every part around it and the notebook with that same exception; the
  effects are those that came before and nothing after the failing call is run, so there
  is no retry, no recovery and no translation of the exception.
\<close>

theorem only_enumeration_catches:
  "snd (for_estimators lib ests) = Inr () \<and>
   fst (for_estimators lib ests) =
     map (\<lambda>(name, cls). Print name)
       (filter (\<lambda>(name, cls). supports_class_weight lib cls) ests) \<and>
   classifiers_with_class_weight lib =
     (case import_module lib ''sklearn.utils.testing'' of
        Inl e \<Rightarrow> ([], Inl e)
      | Inr ws \<Rightarrow>
          (case all_estimators lib ''classifier'' of
             Inl e \<Rightarrow> (map Stderr ws, Inl e)
           | Inr estimators \<Rightarrow>
               (map Stderr ws @
                map (\<lambda>(name, cls). Print name)
                  (filter (\<lambda>(name, cls). supports_class_weight lib cls) estimators),
                Inr ()))) \<and>
   import_libraries lib =
     (case import_module lib ''numpy'' of
        Inl e \<Rightarrow> ([], Inl e)
      | Inr w1 \<Rightarrow>
     (case import_module lib ''pandas'' of
        Inl e \<Rightarrow> (map Stderr w1, Inl e)
      | Inr w2 \<Rightarrow>
     (case import_module lib ''sklearn.linear_model'' of
        Inl e \<Rightarrow> (map Stderr w1 @ map Stderr w2, Inl e)
      | Inr w3 \<Rightarrow>
     (case import_module lib ''sklearn.metrics'' of
        Inl e \<Rightarrow> (map Stderr w1 @ map Stderr w2 @ map Stderr w3, Inl e)
      | Inr w4 \<Rightarrow>
     (case import_module lib ''sklearn.model_selection'' of
        Inl e \<Rightarrow> (map Stderr w1 @ map Stderr w2 @ map Stderr w3 @ map Stderr w4, Inl e)
      | Inr w5 \<Rightarrow>
          (map Stderr w1 @ map Stderr w2 @ map Stderr w3 @ map Stderr w4 @ map Stderr w5,
           Inr ())))))) \<and>
   load_data lib g =
     (case read_csv lib ''../kdd2004.csv'' of
        Inl e \<Rightarrow> ([ReadCsv ''../kdd2004.csv''], Inl e)
      | Inr df \<Rightarrow> ([ReadCsv ''../kdd2004.csv''], sample lib g df 10000 None)) \<and>
   notebook lib g =
     (let c = classifiers_with_class_weight lib;
          i = import_libraries lib;
          l = load_data lib g
      in
      (case snd c of Inl e \<Rightarrow> (fst c, Inl e) | Inr u \<Rightarrow>
      (case snd i of Inl e \<Rightarrow> (fst c @ fst i, Inl e) | Inr u \<Rightarrow>
      (case snd l of Inl e \<Rightarrow> (fst c @ fst i @ fst l, Inl e) | Inr table \<Rightarrow>
      (case df_head lib table of
         Inl e \<Rightarrow> (fst c @ fst i @ fst l, Inl e)
       | Inr shown_head \<Rightarrow>
      (case target_fractions lib table of
         Inl e \<Rightarrow> (fst c @ fst i @ fst l @ [Display shown_head], Inl e)
       | Inr shown_fractions \<Rightarrow>
           (fst c @ fst i @ fst l @ [Display shown_head, Display shown_fractions] @
              fst (pipeline lib g table),
            snd (pipeline lib g table)))))))) \<and>
   pipeline lib g data =
     (case drop_labels lib data [''target''] of
        Inl e \<Rightarrow> ([], Inl e)
      | Inr X \<Rightarrow>
     (case get_column lib data ''target'' of
        Inl e \<Rightarrow> ([], Inl e)
      | Inr y \<Rightarrow>
     (case train_test_split lib g X y (3 / 10) (Some 0) of
        Inl e \<Rightarrow> ([], Inl e)
      | Inr (Xtr, Xte, ytr, yte) \<Rightarrow>
     (case shapes lib Xtr Xte of
        Inl e \<Rightarrow> ([], Inl e)
      | Inr shown \<Rightarrow>
          (Display shown # fst (weighting_runs lib g Xtr Xte ytr yte),
           snd (weighting_runs lib g Xtr Xte ytr yte)))))) \<and>
   weighting_runs lib g X_train X_test y_train y_test =
     (let r1 = run_Logit_class_weight lib g X_train X_test y_train y_test None;
          r2 = run_Logit_class_weight lib g X_train X_test y_train y_test
                 (Some (Str ''balanced''));
          r3 = run_Logit_class_weight lib g X_train X_test y_train y_test
                 (Some (Dict [(-1, 1), (1, 10)]));
          r4 = run_Logit_sample_weight lib g X_train X_test y_train y_test None;
          r5 = run_Logit_sample_weight lib g X_train X_test y_train y_test
                 (Some (minority_sample_weight y_train))
      in
      (case snd r1 of Inl e \<Rightarrow> (fst r1, Inl e) | Inr u \<Rightarrow>
      (case snd r2 of Inl e \<Rightarrow> (fst r1 @ fst r2, Inl e) | Inr u \<Rightarrow>
      (case snd r3 of Inl e \<Rightarrow> (fst r1 @ fst r2 @ fst r3, Inl e) | Inr u \<Rightarrow>
      (case snd r4 of Inl e \<Rightarrow> (fst r1 @ fst r2 @ fst r3 @ fst r4, Inl e) | Inr u \<Rightarrow>
         (fst r1 @ fst r2 @ fst r3 @ fst r4 @ fst r5, snd r5)))))) \<and>
   run_Logit_class_weight lib g X_train X_test y_train y_test cw =
     (case fit lib g (LogisticRegression_class_weight cw) X_train y_train None of
        Inl e \<Rightarrow> ([], Inl e)
      | Inr m \<Rightarrow>
          (case roc_auc_of_predictions lib m X_train y_train of
             Inl e \<Rightarrow> ([Print ''Train set''], Inl e)
           | Inr s \<Rightarrow>
               (case roc_auc_of_predictions lib m X_test y_test of
                  Inl e \<Rightarrow>
                    ([Print ''Train set'',
                      Print (''Random Forests roc-auc: '' @ format_float lib s),
                      Print ''Test set''], Inl e)
                | Inr s' \<Rightarrow>
                    ([Print ''Train set'',
                      Print (''Random Forests roc-auc: '' @ format_float lib s),
                      Print ''Test set'',
                      Print (''Random Forests roc-auc: '' @ format_float lib s')],
                     Inr ())))) \<and>
   run_Logit_sample_weight lib g X_train X_test y_train y_test sw =
     (case fit lib g LogisticRegression_sample_weight X_train y_train sw of
        Inl e \<Rightarrow> ([], Inl e)
      | Inr m \<Rightarrow>
          (case roc_auc_of_predictions lib m X_train y_train of
             Inl e \<Rightarrow> ([Print ''Train set''], Inl e)
           | Inr s \<Rightarrow>
               (case roc_auc_of_predictions lib m X_test y_test of
                  Inl e \<Rightarrow>
                    ([Print ''Train set'',
                      Print (''Random Forests roc-auc: '' @ format_float lib s),
                      Print ''Test set''], Inl e)
                | Inr s' \<Rightarrow>
                    ([Print ''Train set'',
                      Print (''Random Forests roc-auc: '' @ format_float lib s),
                      Print ''Test set'',
                      Print (''Random Forests roc-auc: '' @ format_float lib s')],
                     Inr ()))))"
proof (intro conjI)
  show "snd (for_estimators lib ests) = Inr ()"
    by (rule for_estimators_never_raises)
  show "fst (for_estimators lib ests) =
     map (\<lambda>(name, cls). Print name)
       (filter (\<lambda>(name, cls). supports_class_weight lib cls) ests)"
    by (rule for_estimators_prints)
qed (rule classifiers_with_class_weight_cases import_libraries_cases load_data_cases
      notebook_cases pipeline_cases weighting_runs_cases run_Logit_class_weight_cases
      run_Logit_sample_weight_cases)+

theorem only_enumeration_catches_witness:
  "snd (for_estimators toy_library [(''StackingClassifier'', 3), (''LogisticRegression'', 0)]) =
     Inr () \<and>
   fst (for_estimators toy_library [(''StackingClassifier'', 3), (''LogisticRegression'', 0)]) =
     [Print ''LogisticRegression''] \<and>
   notebook toy_library 0 =
     (Stderr ''FutureWarning'' # Print ''LogisticRegression'' # ReadCsv ''../kdd2004.csv'' #
      Display ''head'' # Display ''fractions'' # Display ''shapes'' #
        toy_run_lines @ toy_run_lines @ toy_run_lines @ toy_run_lines @ toy_run_lines,
      Inr ()) \<and>
   notebook one_row_library 0 =
     ([Stderr ''FutureWarning'', Print ''LogisticRegression'', ReadCsv ''../kdd2004.csv'',
       Display ''head'', Display ''fractions'', Display ''shapes'', Print ''Train set''],
      Inl ''ValueError'')"
proof -
  note toy = only_enumeration_catches
    [where lib = toy_library and g = 0
      and ests = "[(''StackingClassifier'', 3), (''LogisticRegression'', 0)]"]
  note one = only_enumeration_catches [where lib = one_row_library and g = 0]
  have "notebook toy_library 0 =
     (Stderr ''FutureWarning'' # Print ''LogisticRegression'' # ReadCsv ''../kdd2004.csv'' #
      Display ''head'' # Display ''fractions'' # Display ''shapes'' #
        toy_run_lines @ toy_run_lines @ toy_run_lines @ toy_run_lines @ toy_run_lines,
      Inr ())"
    using toy
    by (simp add: Let_def toy_classifiers toy_import_libraries toy_load_data(1)
        toy_displays toy_pipeline)
  moreover have "notebook one_row_library 0 =
     ([Stderr ''FutureWarning'', Print ''LogisticRegression'', ReadCsv ''../kdd2004.csv'',
       Display ''head'', Display ''fractions'', Display ''shapes'', Print ''Train set''],
      Inl ''ValueError'')"
    using one
    by (simp add: Let_def one_row_classifiers one_row_import_libraries one_row_load_data
        one_row_displays one_row_pipeline)
  moreover have "snd (for_estimators toy_library
      [(''StackingClassifier'', 3), (''LogisticRegression'', 0)]) = Inr ()"
    using toy by simp
  moreover have "fst (for_estimators toy_library
      [(''StackingClassifier'', 3), (''LogisticRegression'', 0)]) = [Print ''LogisticRegression'']"
    using toy by (simp add: toy_supports)
  ultimately show ?thesis by simp
qed

text \<open>
  The claim as first stated, that no exception raised anywhere in the program is caught
  and suppressed, fails in the enumeration: a class whose constructor raises
  \<^verbatim>\<open>TypeError\<close> is in the list, and the cell still ends normally.
\<close>

theorem enumeration_suppresses_exception:
  "all_estimators toy_library ''classifier'' =
     Inr [(''LogisticRegression'', 0), (''GaussianNB'', 2), (''StackingClassifier'', 3)] \<and>
   construct toy_library 3 = Inl ''TypeError'' \<and>
   classifiers_with_class_weight toy_library =
     ([Stderr ''FutureWarning'', Print ''LogisticRegression''], Inr ())"
  by (simp add: toy_all_estimators toy_classifiers) (simp add: toy_library_def)




text \<open>
  C9. With no weights, the two definitions of \<^verbatim>\<open>run_Logit\<close> construct the same
  estimator (same penalty, solver, random_state, max_iter, n_jobs, and no class weights)
  and, on the same split, print the same lines and end the same way.
\<close>

theorem run_Logit_variants_agree_unweighted:
  "LogisticRegression_class_weight None = LogisticRegression_sample_weight \<and>
   run_Logit_class_weight lib g X_train X_test y_train y_test None =
   run_Logit_sample_weight lib g X_train X_test y_train y_test None"
  by (simp add: run_Logit_class_weight_def run_Logit_sample_weight_def
      LogisticRegression_class_weight_def LogisticRegression_sample_weight_def)

theorem run_Logit_variants_agree_unweighted_witness:
  "run_Logit_sample_weight toy_library 0 [5, 7, 6] [9, 4] [-1, 1, -1] [1, -1] None =
     ([Print ''Train set'', Print ''Random Forests roc-auc: 0.999'',
       Print ''Test set'', Print ''Random Forests roc-auc: 0.99''], Inr ()) \<and>
   run_Logit_class_weight toy_library 0 [5, 7, 6] [9, 4] [-1, 1, -1] [1, -1] None =
   run_Logit_sample_weight toy_library 0 [5, 7, 6] [9, 4] [-1, 1, -1] [1, -1] None"
proof -
  have "fit toy_library 0 LogisticRegression_sample_weight [5, 7, 6] [-1, 1, -1] None = Inr 0"
    by (simp add: toy_library_def LogisticRegression_sample_weight_def)
  moreover have "format_float toy_library 3 = ''0.999''" "format_float toy_library 2 = ''0.99''"
    by (simp_all add: toy_library_def eval_nat_numeral)
  ultimately show ?thesis
    using run_Logit_variants_agree_unweighted
      [of toy_library 0 "[5, 7, 6]" "[9, 4]" "[-1, 1, -1]" "[1, -1]"]
    by (simp add: run_Logit_sample_weight_cases toy_auc_train toy_auc_test)
qed

text \<open>
  C10. Given the same table, the split and the whole split/fit/score pipeline (its printed
  lines and its outcome) do not depend on the ambient random source, because the split and
  every estimator are given the seed \<^verbatim>\<open>random_state=0\<close>: this holds for every library
  whose seeded calls ignore the ambient source. The loading step is different: its
  \<^verbatim>\<open>sample(10000)\<close> is given no seed, and for a library that honours seeds the loaded
  table can still differ from one ambient source to another.
\<close>

theorem seeded_pipeline_deterministic:
  "(seeded_calls_ignore_ambient lib \<longrightarrow>
      split_data lib g data = split_data lib g' data \<and>
      pipeline lib g data = pipeline lib g' data) \<and>
   \<not> (\<forall>lib :: toy. seeded_calls_ignore_ambient lib \<longrightarrow>
         (\<forall>g g'. load_data lib g = load_data lib g'))"
proof (intro conjI impI)
  show "\<not> (\<forall>lib :: toy. seeded_calls_ignore_ambient lib \<longrightarrow>
         (\<forall>g g'. load_data lib g = load_data lib g'))"
  proof
    assume "\<forall>lib :: toy. seeded_calls_ignore_ambient lib \<longrightarrow>
         (\<forall>g g'. load_data lib g = load_data lib g')"
    with toy_seeded have "load_data toy_library 0 = load_data toy_library 1" by blast
    then show False unfolding toy_load_data by simp
  qed
qed (simp_all add: split_data_ambient [of lib g _ g'] pipeline_ambient [of lib g _ g'])

theorem seeded_pipeline_deterministic_witness:
  "seeded_calls_ignore_ambient toy_library \<and>
   split_data toy_library 0 [(5, -1), (7, 1), (6, -1), (9, 1)] =
   split_data toy_library 1 [(5, -1), (7, 1), (6, -1), (9, 1)] \<and>
   pipeline toy_library 0 [(5, -1), (7, 1), (6, -1), (9, 1)] =
   pipeline toy_library 1 [(5, -1), (7, 1), (6, -1), (9, 1)]"
  using seeded_pipeline_deterministic [of toy_library 0 "[(5, -1), (7, 1), (6, -1), (9, 1)]" 1]
    toy_seeded
  by simp

end
